theory Spec2Isabelle
  imports Main "HOL-Library.Word"
begin

unbundle bit_operations_syntax

section \<open>Machine types and Winsock constants\<close>

text \<open>
  The filter DLL is 32-bit x86 code: pointers, \<open>unsigned long\<close>, \<open>int\<close> and
  \<open>SOCKET\<close> are 32-bit words, \<open>unsigned short\<close> is a 16-bit word and
  \<open>long long\<close> a 64-bit word.  An \<open>int\<close> and the \<open>unsigned long\<close> with the
  same bits are the same word; \<open>sint\<close> and \<open>uint\<close> read it.
\<close>

type_synonym addr = "32 word"
type_synonym byte = "8 word"
type_synonym SOCKET = "32 word"

definition AF_INET :: "16 word" where "AF_INET = 2"
definition INADDR_ANY :: "32 word" where "INADDR_ANY = 0"
definition INADDR_NONE :: "32 word" where "INADDR_NONE = 0xFFFFFFFF"
definition SOCKET_ERROR :: "32 word" where "SOCKET_ERROR = - 1"
definition WSAECONNREFUSED :: "32 word" where "WSAECONNREFUSED = 10061"
definition WSAHOST_NOT_FOUND :: "32 word" where "WSAHOST_NOT_FOUND = 11001"
definition MSG_PEEK :: "32 word" where "MSG_PEEK = 2"

section \<open>The bandwidth meter\<close>

text \<open>
  \<open>class Meter\<close>.  The critical section serialises the calls, so a run of the meter
  is a sequence of \<open>operator +=\<close> calls; each call reads the clock once
  (\<open>GetTickCount\<close>), and that reading is an input of the call.
\<close>

record Meter =
  m_now :: "32 word"
  m_currentBytes :: "32 word"
  m_last :: "32 word"
  m_total :: "64 word"

text \<open>The constructor; \<open>now\<close> is the clock when the process attaches.\<close>

definition Meter_init :: "32 word \<Rightarrow> Meter" where
  "Meter_init now = \<lparr>m_now = now, m_currentBytes = 0, m_last = 0, m_total = 0\<rparr>"

text \<open>
  \<open>Meter::newTick\<close>.  \<open>delta\<close> is unsigned, so \<open>delta < 1\<close> is \<open>delta = 0\<close>.
  \<open>m_total += bytes\<close> widens the unsigned 32-bit counter to 64 bits.
\<close>

definition newTick :: "32 word \<Rightarrow> Meter \<Rightarrow> Meter" where
  "newTick now m =
     (let delta = now - m_now m in
      if delta < 1 then m
      else let bytes = m_currentBytes m in
        m\<lparr>m_currentBytes := 0,
          m_total := m_total m + ucast bytes,
          m_last := m_now m,
          m_now := now\<rparr>)"

text \<open>\<open>Meter::operator +=\<close>, with the clock reading \<open>now\<close> made explicit.\<close>

definition Meter_add :: "32 word \<Rightarrow> 32 word \<Rightarrow> Meter \<Rightarrow> Meter" where
  "Meter_add now bytes m =
     (let bytes' = (if bytes = SOCKET_ERROR then 0 else bytes);
          m1 = newTick now m
      in m1\<lparr>m_currentBytes := m_currentBytes m1 + bytes'\<rparr>)"

text \<open>A sequence of calls, each with its clock reading and its byte count.\<close>

fun Meter_adds :: "(32 word \<times> 32 word) list \<Rightarrow> Meter \<Rightarrow> Meter" where
  "Meter_adds [] m = m"
| "Meter_adds ((now, bytes) # cs) m = Meter_adds cs (Meter_add now bytes m)"

text \<open>What a byte count contributes: nothing for the error sentinel.\<close>

definition counted :: "32 word \<Rightarrow> int" where
  "counted bytes = (if bytes = SOCKET_ERROR then 0 else sint bytes)"

definition accounted :: "Meter \<Rightarrow> int" where
  "accounted m = uint (m_total m) + uint (m_currentBytes m)"

text \<open>
  No addition into the 32-bit window counter wraps around during the calls: each count
  fits the counter together with what the window holds when it is added.
\<close>

fun window_fits :: "(32 word \<times> 32 word) list \<Rightarrow> Meter \<Rightarrow> bool" where
  "window_fits [] m = True"
| "window_fits ((now, bytes) # cs) m =
     (uint (m_currentBytes (newTick now m)) + counted bytes < 2 ^ 32
      \<and> window_fits cs (Meter_add now bytes m))"

section \<open>The policy handlers\<close>

text \<open>
  A socket address as the handlers see it: the family, and the bytes after it read as a
  \<open>sockaddr_in\<close> (port, address, and what follows).  For another family the last
  three fields are just the bytes of that family's structure.
\<close>

record sockaddr =
  sa_family :: "16 word"
  sin_port :: "16 word"
  sin_addr :: "32 word"
  sin_zero :: "byte list"

text \<open>
  The rule engine (\<open>class FilterRules\<close>, declared in \<open>filterrule.h\<close>) is not part
  of this file; its four operations are parameters, over any type \<open>'r\<close> of rule sets.
  A match operation returns the \<open>bool\<close> of the C++ call together with the pointer it
  left in \<open>replace\<close> (\<open>None\<close> for the null pointer).
\<close>

record 'r FilterRules =
  rules_install :: "'r \<Rightarrow> string \<Rightarrow> bool \<times> 'r"
  rules_append :: "'r \<Rightarrow> string \<Rightarrow> 'r"
  rules_match_addr :: "'r \<Rightarrow> sockaddr \<Rightarrow> addr \<Rightarrow> bool \<times> sockaddr option"
  rules_match_name :: "'r \<Rightarrow> string \<Rightarrow> bool \<times> sockaddr option"

text \<open>
  What a handler does to the world outside it, in order: calls through a resume pointer
  to the original function, \<open>SetLastError\<close>, and debug output.
\<close>

datatype event =
    OutputDebugStringA string
  | SetLastError "32 word"
  | Resume_connect SOCKET sockaddr "32 word"
  | Resume_gethostbyname string

definition CRLF :: string where
  "CRLF = [CHR 0x0D, CHR 0x0A]"

text \<open>
  \<open>connectHook\<close>.  \<open>resume\<close> is the original \<open>connect\<close> reached through
  \<open>* g_connectResume\<close>, as the value it returns for its arguments.  \<open>stack\<close> is
  what the uninitialised \<open>sin_zero\<close> of the local \<open>temp\<close> happens to hold;
  \<open>sizeof (temp)\<close> is 16.
\<close>

definition connectHook ::
  "'r FilterRules \<Rightarrow> 'r \<Rightarrow> (SOCKET \<Rightarrow> sockaddr \<Rightarrow> 32 word \<Rightarrow> 32 word) \<Rightarrow> byte list \<Rightarrow>
   SOCKET \<Rightarrow> sockaddr \<Rightarrow> 32 word \<Rightarrow> 32 word \<times> event list" where
  "connectHook ops rules resume stack s name namelen =
     (let module = 0 in
      if sa_family name \<noteq> AF_INET
      then (resume s name namelen, [Resume_connect s name namelen])
      else case rules_match_addr ops rules name module of
        (False, _) \<Rightarrow> (resume s name namelen, [Resume_connect s name namelen])
      | (True, None) \<Rightarrow>
          (SOCKET_ERROR,
           [OutputDebugStringA (''Connect refused'' @ CRLF), SetLastError WSAECONNREFUSED])
      | (True, Some replace) \<Rightarrow>
          if sin_addr replace = INADDR_NONE
          then (SOCKET_ERROR,
                [OutputDebugStringA (''Connect refused'' @ CRLF), SetLastError WSAECONNREFUSED])
          else
            let base = name;
                temp = \<lparr>sa_family = sa_family base,
                        sin_port = (if sin_port replace \<noteq> 0 then sin_port replace
                                    else sin_port base),
                        sin_addr = (if sin_addr replace \<noteq> 0 then sin_addr replace
                                    else sin_addr base),
                        sin_zero = stack\<rparr>
            in (resume s temp 16,
                [OutputDebugStringA (''Connect redirected'' @ CRLF), Resume_connect s temp 16]))"

record hostent =
  h_name :: string
  h_aliases :: "string list option"
  h_addrtype :: "16 word"
  h_length :: "16 word"
  h_addr_list :: "32 word list"

text \<open>
  \<open>gethostHook\<close>.  A \<open>hostent *\<close> is \<open>None\<close> when null.  The two tests of the
  source on \<open>replace\<close> are the cases of the pointer here.
\<close>

definition gethostHook ::
  "'r FilterRules \<Rightarrow> 'r \<Rightarrow> (string \<Rightarrow> hostent option) \<Rightarrow> string \<Rightarrow>
   hostent option \<times> event list" where
  "gethostHook ops rules resume name =
     (case rules_match_name ops rules name of
        (False, _) \<Rightarrow> (resume name, [Resume_gethostbyname name])
      | (True, None) \<Rightarrow>
          (None, [OutputDebugStringA (''gethostbyname refused'' @ CRLF),
                  SetLastError WSAHOST_NOT_FOUND])
      | (True, Some replace) \<Rightarrow>
          if sin_addr replace = INADDR_ANY
          then (resume name, [Resume_gethostbyname name])
          else if sin_addr replace = INADDR_NONE
          then (None, [OutputDebugStringA (''gethostbyname refused'' @ CRLF),
                       SetLastError WSAHOST_NOT_FOUND])
          else
            let addr = sin_addr replace;
                result = \<lparr>h_name = ''remapped.local'',
                          h_aliases = None,
                          h_addrtype = AF_INET,
                          h_length = 4,
                          h_addr_list = [addr]\<rparr>
            in (Some result, [OutputDebugStringA (''gethostbyname redirected'' @ CRLF)]))"

section \<open>The metering handlers\<close>

text \<open>
  \<open>recvHook\<close> and \<open>recvfromHook\<close>: \<open>resume\<close> is the original function, \<open>now\<close>
  the clock the meter reads.  Buffers and out-parameters are pointers.
\<close>

definition recvHook ::
  "(SOCKET \<Rightarrow> addr \<Rightarrow> 32 word \<Rightarrow> 32 word \<Rightarrow> 32 word) \<Rightarrow> 32 word \<Rightarrow>
   SOCKET \<Rightarrow> addr \<Rightarrow> 32 word \<Rightarrow> 32 word \<Rightarrow> Meter \<Rightarrow> 32 word \<times> Meter" where
  "recvHook resume now s buf len flags g_meter =
     (let result = resume s buf len flags
      in (result, Meter_add now result g_meter))"

definition recvfromHook ::
  "(SOCKET \<Rightarrow> addr \<Rightarrow> 32 word \<Rightarrow> 32 word \<Rightarrow> addr \<Rightarrow> addr \<Rightarrow> 32 word) \<Rightarrow> 32 word \<Rightarrow>
   SOCKET \<Rightarrow> addr \<Rightarrow> 32 word \<Rightarrow> 32 word \<Rightarrow> addr \<Rightarrow> addr \<Rightarrow> Meter \<Rightarrow> 32 word \<times> Meter" where
  "recvfromHook resume now s buf len flags from fromLen g_meter =
     (let result = resume s buf len flags from fromLen
      in (result, Meter_add now result g_meter))"

text \<open>
  \<open>wsaRecvHook\<close>.  The original \<open>WSARecv\<close> returns its result and stores through
  its pointers: \<open>wr_received\<close> is \<open>* received\<close> and \<open>wr_InternalHigh\<close> is
  \<open>overlapped->InternalHigh\<close> after the call.  \<open>flags\<close> is the pointer with the
  value it points to before the call (\<open>None\<close> when null); the other pointers are
  addresses, 0 when null.  Reading \<open>* received\<close> through a null pointer is an access
  violation.
\<close>

record WSARecv_out =
  wr_result :: "32 word"
  wr_received :: "32 word"
  wr_InternalHigh :: "32 word"

datatype fault = AccessViolation

definition wsaRecvHook ::
  "(SOCKET \<Rightarrow> addr \<Rightarrow> 32 word \<Rightarrow> addr \<Rightarrow> 32 word option \<Rightarrow> addr \<Rightarrow> addr \<Rightarrow> WSARecv_out) \<Rightarrow>
   32 word \<Rightarrow> SOCKET \<Rightarrow> addr \<Rightarrow> 32 word \<Rightarrow> addr \<Rightarrow> 32 word option \<Rightarrow> addr \<Rightarrow> addr \<Rightarrow>
   Meter \<Rightarrow> fault + (32 word \<times> Meter)" where
  "wsaRecvHook resume now s buffers count received flags overlapped handler g_meter =
     (if overlapped \<noteq> 0 \<or> handler \<noteq> 0 then
        let out = resume s buffers count received flags overlapped handler;
            result = wr_result out
        in if result = 0 \<and> overlapped \<noteq> 0
           then Inr (result, Meter_add now (wr_InternalHigh out) g_meter)
           else Inr (result, g_meter)
      else
        let ignore = (case flags of None \<Rightarrow> False | Some f \<Rightarrow> f AND MSG_PEEK \<noteq> 0);
            out = resume s buffers count received flags overlapped handler;
            result = wr_result out
        in if result \<noteq> SOCKET_ERROR \<and> \<not> ignore
           then (if received = 0 then Inl AccessViolation
                 else Inr (result, Meter_add now (wr_received out) g_meter))
           else Inr (result, g_meter))"

text \<open>
  A small rule engine to run the handlers on: the rule set is the one replacement every
  destination and every name matches (\<open>None\<close> for a rule without replacement), and
  an address specification is accepted unless it is empty.
\<close>

definition example_rules :: "(sockaddr option) FilterRules" where
  "example_rules =
     \<lparr>rules_install = (\<lambda>r address. (address \<noteq> [], r)),
      rules_append = (\<lambda>r rule. r),
      rules_match_addr = (\<lambda>r name module. (True, r)),
      rules_match_name = (\<lambda>r name. (True, r))\<rparr>"

section \<open>The code patcher\<close>

text \<open>
  The memory of the process is a byte at every 32-bit address; pointer arithmetic wraps.
  The hook records are C++ objects of the filter DLL and are kept apart from this
  memory: the patcher writes the code of the target library through \<open>data\<close> and its
  own arrays \<open>m_save\<close> and \<open>m_thunk\<close> by name, and the two do not overlap.
\<close>

type_synonym memory = "addr \<Rightarrow> byte"

definition PUSH_IMM8 :: byte where "PUSH_IMM8 = 0x6A"
definition JMP_LONG :: byte where "JMP_LONG = 0xE9"
definition JMP_SHORT :: byte where "JMP_SHORT = 0xEB"
definition MOV_EDI_EDI :: "16 word" where "MOV_EDI_EDI = 0xFF8B"
definition JMP_SHORT_MINUS5 :: "16 word" where "JMP_SHORT_MINUS5 = 0xF900 + ucast JMP_SHORT"

text \<open>\<open>memcpy\<close> out of and into the memory, and the unaligned 16-bit accesses of x86.\<close>

fun read_bytes :: "memory \<Rightarrow> addr \<Rightarrow> nat \<Rightarrow> byte list" where
  "read_bytes mem a 0 = []"
| "read_bytes mem a (Suc n) = mem a # read_bytes mem (a + 1) n"

fun write_bytes :: "memory \<Rightarrow> addr \<Rightarrow> byte list \<Rightarrow> memory" where
  "write_bytes mem a [] = mem"
| "write_bytes mem a (b # bs) = write_bytes (mem(a := b)) (a + 1) bs"

definition read_u16 :: "memory \<Rightarrow> addr \<Rightarrow> 16 word" where
  "read_u16 mem a = ucast (mem a) OR push_bit 8 (ucast (mem (a + 1)))"

definition write_u16 :: "memory \<Rightarrow> addr \<Rightarrow> 16 word \<Rightarrow> memory" where
  "write_u16 mem a v = write_bytes mem a [ucast v, ucast (drop_bit 8 v)]"

text \<open>
  \<open>writeOffset\<close>: the four bytes it stores through \<open>dest\<close>, low byte first.  The
  caller puts them where \<open>dest\<close> points.
\<close>

definition writeOffset :: "32 word \<Rightarrow> byte list" where
  "writeOffset v =
     (let b0 = ucast (v AND 0xFF); v1 = drop_bit 8 v;
          b1 = ucast (v1 AND 0xFF); v2 = drop_bit 8 v1;
          b2 = ucast (v2 AND 0xFF); v3 = drop_bit 8 v2;
          b3 = ucast (v3 AND 0xFF)
      in [b0, b1, b2, b3])"

text \<open>
  A store of \<open>ys\<close> into the array \<open>xs\<close> from index \<open>i\<close>.  The array keeps its
  length: bytes that would fall behind its end are left out (the C++ would overrun the
  array; \<open>attach\<close> stores 7 bytes into the 16 of \<open>m_thunk\<close>).
\<close>

definition array_write :: "'a list \<Rightarrow> nat \<Rightarrow> 'a list \<Rightarrow> 'a list" where
  "array_write xs i ys = take i xs @ take (length xs - i) ys @ drop (i + length ys) xs"

text \<open>
  What the operating system answers.  \<open>GetModuleHandleW n\<close> is the handle of
  \<open>WS2_32.DLL\<close> at the \<open>n\<close>-th poll (0 while it is not loaded),
  \<open>GetModuleHandleExW\<close> the handle of the filter DLL that pins it (0 when the call
  fails), \<open>VirtualProtect a n\<close> whether the \<open>n\<close> bytes at \<open>a\<close> could be made
  writable and executable, and \<open>mapped a\<close> whether the patch area at \<open>a\<close> can
  still be written (it cannot once the target library is unloaded).
\<close>

record Win32 =
  GetModuleHandleW :: "nat \<Rightarrow> addr"
  GetProcAddress :: "addr \<Rightarrow> string \<Rightarrow> addr"
  VirtualProtect :: "addr \<Rightarrow> nat \<Rightarrow> bool"
  GetModuleHandleExW :: addr
  mapped :: "addr \<Rightarrow> bool"

text \<open>\<open>struct ApiHook\<close>, and its constructor on zero-initialised static storage.\<close>

record ApiHook =
  m_original :: addr
  m_resume :: addr
  m_hook :: addr
  m_save :: "byte list"
  m_thunk :: "byte list"

definition ApiHook_new :: ApiHook where
  "ApiHook_new = \<lparr>m_original = 0, m_resume = 0, m_hook = 0,
                   m_save = replicate 8 0, m_thunk = replicate 16 0\<rparr>"

text \<open>
  \<open>ApiHook::makeThunk\<close>.  \<open>thunk\<close> is the address of this record's \<open>m_thunk\<close>
  (what \<open>& m_thunk\<close> evaluates to); the result is the returned pointer with the
  record after the stores.
\<close>

definition makeThunk ::
  "Win32 \<Rightarrow> addr \<Rightarrow> memory \<Rightarrow> addr \<Rightarrow> nat \<Rightarrow> ApiHook \<Rightarrow> addr \<times> ApiHook" where
  "makeThunk sys thunk mem data bytes h =
     (let t1 = array_write (m_thunk h) 0 (read_bytes mem data bytes);
          t2 = array_write t1 bytes [JMP_LONG];
          t3 = array_write t2 (bytes + 1) (writeOffset (thunk - data));
          h' = h\<lparr>m_thunk := t3\<rparr>
      in if \<not> VirtualProtect sys thunk 16 then (0, h') else (thunk, h'))"

text \<open>
  \<open>ApiHook::attach (void * address, FARPROC hook)\<close>: the result is the returned
  \<open>bool\<close>, the record and the memory.
\<close>

definition attach ::
  "Win32 \<Rightarrow> addr \<Rightarrow> addr \<Rightarrow> addr \<Rightarrow> ApiHook \<Rightarrow> memory \<Rightarrow> bool \<times> ApiHook \<times> memory" where
  "attach sys thunk address hook h mem =
     (if address = 0 then (False, h, mem)
      else
        let h1 = h\<lparr>m_hook := hook, m_original := address\<rparr>;
            data = address;
            h2 = h1\<lparr>m_save := read_bytes mem (data - 5) 8, m_resume := 0\<rparr>;
            recognised =
              (if read_u16 mem data = MOV_EDI_EDI then Some (h2\<lparr>m_resume := data + 2\<rparr>)
               else if mem data = PUSH_IMM8 then
                 (case makeThunk sys thunk mem data 2 h2 of
                    (r, h3) \<Rightarrow> Some (h3\<lparr>m_resume := r\<rparr>))
               else None)
        in case recognised of
             None \<Rightarrow> (False, h2, mem)
           | Some h4 \<Rightarrow>
               if \<not> VirtualProtect sys (data - 5) 7 then (False, h4, mem)
               else
                 let mem1 = mem(data - 5 := JMP_LONG);
                     mem2 = write_bytes mem1 (data - 4) (writeOffset (hook - data));
                     mem3 = write_u16 mem2 data JMP_SHORT_MINUS5
                 in (True, h4, mem3))"

text \<open>
  \<open>ApiHook::attach (void * hook, HMODULE lib, const char * name)\<close>, which
  \<open>Hook<F>::attach\<close> forwards to.
\<close>

definition attach_export ::
  "Win32 \<Rightarrow> addr \<Rightarrow> addr \<Rightarrow> addr \<Rightarrow> string \<Rightarrow> ApiHook \<Rightarrow> memory \<Rightarrow> bool \<times> ApiHook \<times> memory" where
  "attach_export sys thunk hook lib name h mem =
     (let func = GetProcAddress sys lib name in
      if func = 0 then (False, h\<lparr>m_resume := 0\<rparr>, mem)
      else case attach sys thunk func hook h mem of
             (False, h', mem') \<Rightarrow> (False, h'\<lparr>m_resume := 0\<rparr>, mem')
           | (True, h', mem') \<Rightarrow> (True, h', mem'))"

text \<open>
  \<open>ApiHook::unhook\<close>.  The first component tells whether the \<open>memcpy\<close> faulted.
  \<open>__try\<close>/\<open>__finally\<close> is a termination handler: the record is reset on both
  ways out, and after a fault the exception goes on to the caller.
\<close>

definition unhook :: "Win32 \<Rightarrow> ApiHook \<Rightarrow> memory \<Rightarrow> bool \<times> ApiHook \<times> memory" where
  "unhook sys h mem =
     (if m_resume h = 0 then (False, h, mem)
      else if mapped sys (m_original h - 5)
      then (False, h\<lparr>m_original := 0, m_resume := 0\<rparr>,
            write_bytes mem (m_original h - 5) (take 7 (m_save h)))
      else (True, h\<lparr>m_original := 0, m_resume := 0\<rparr>, mem))"

section \<open>The hooks of the filter and their life cycle\<close>

text \<open>
  The seven global \<open>Hook<F>\<close> objects, the rule set, the module handle kept for
  unloading, the memory of the process and the reference count that keeps the filter DLL
  loaded (\<open>GetModuleHandleExW\<close> adds one, \<open>FreeLibrary\<close> takes one away).
\<close>

record 'r Filter =
  g_connectResume :: ApiHook
  g_gethostResume :: ApiHook
  g_inet_addr_resume :: ApiHook
  g_recvResume :: ApiHook
  g_recvfromResume :: ApiHook
  g_wsaRecvResume :: ApiHook
  g_wsaGetOverlappedResume :: ApiHook
  g_rules :: 'r
  g_instance :: addr
  code :: memory
  references :: int

text \<open>The state when the DLL has been loaded and its static constructors have run.\<close>

definition Filter_loaded :: "'r \<Rightarrow> memory \<Rightarrow> int \<Rightarrow> 'r Filter" where
  "Filter_loaded rules mem refs =
     \<lparr>g_connectResume = ApiHook_new, g_gethostResume = ApiHook_new,
      g_inet_addr_resume = ApiHook_new, g_recvResume = ApiHook_new,
      g_recvfromResume = ApiHook_new, g_wsaRecvResume = ApiHook_new,
      g_wsaGetOverlappedResume = ApiHook_new,
      g_rules = rules, g_instance = 0, code = mem, references = refs\<rparr>"

text \<open>
  Names for the seven globals, to call a member function on one of them.  Where the
  loader put the filter DLL is a parameter: \<open>hook_function\<close> gives the address of the
  handler written for a global (\<open>connectHook\<close> for \<open>g_connectResume\<close>, and so on),
  \<open>thunk_address\<close> the address of its \<open>m_thunk\<close>.
\<close>

datatype global_hook =
  Connect | GetHost | InetAddr | Recv | RecvFrom | WsaRecv | WsaGetOverlapped

record Layout =
  hook_function :: "global_hook \<Rightarrow> addr"
  thunk_address :: "global_hook \<Rightarrow> addr"

fun hook_of :: "global_hook \<Rightarrow> 'r Filter \<Rightarrow> ApiHook" where
  "hook_of Connect s = g_connectResume s"
| "hook_of GetHost s = g_gethostResume s"
| "hook_of InetAddr s = g_inet_addr_resume s"
| "hook_of Recv s = g_recvResume s"
| "hook_of RecvFrom s = g_recvfromResume s"
| "hook_of WsaRecv s = g_wsaRecvResume s"
| "hook_of WsaGetOverlapped s = g_wsaGetOverlappedResume s"

fun hook_update :: "global_hook \<Rightarrow> ApiHook \<Rightarrow> 'r Filter \<Rightarrow> 'r Filter" where
  "hook_update Connect h s = s\<lparr>g_connectResume := h\<rparr>"
| "hook_update GetHost h s = s\<lparr>g_gethostResume := h\<rparr>"
| "hook_update InetAddr h s = s\<lparr>g_inet_addr_resume := h\<rparr>"
| "hook_update Recv h s = s\<lparr>g_recvResume := h\<rparr>"
| "hook_update RecvFrom h s = s\<lparr>g_recvfromResume := h\<rparr>"
| "hook_update WsaRecv h s = s\<lparr>g_wsaRecvResume := h\<rparr>"
| "hook_update WsaGetOverlapped h s = s\<lparr>g_wsaGetOverlappedResume := h\<rparr>"

text \<open>\<open>g.attach (hook, lib, name)\<close> and \<open>g.unhook ()\<close> on a global \<open>g\<close>.\<close>

definition Hook_attach ::
  "Win32 \<Rightarrow> Layout \<Rightarrow> global_hook \<Rightarrow> addr \<Rightarrow> string \<Rightarrow> 'r Filter \<Rightarrow> bool \<times> 'r Filter" where
  "Hook_attach sys lay g lib name s =
     (case attach_export sys (thunk_address lay g) (hook_function lay g) lib name
             (hook_of g s) (code s) of
        (ok, h, mem) \<Rightarrow> (ok, (hook_update g h s)\<lparr>code := mem\<rparr>))"

definition Hook_unhook :: "Win32 \<Rightarrow> global_hook \<Rightarrow> 'r Filter \<Rightarrow> bool \<times> 'r Filter" where
  "Hook_unhook sys g s =
     (case unhook sys (hook_of g s) (code s) of
        (faulted, h, mem) \<Rightarrow> (faulted, (hook_update g h s)\<lparr>code := mem\<rparr>))"

text \<open>
  \<open>a && b\<close> on calls that change the state: \<open>b\<close> runs only when \<open>a\<close> was true.
  And one statement after another, where a fault in the first leaves the function.
\<close>

definition and_also :: "('s \<Rightarrow> bool \<times> 's) \<Rightarrow> ('s \<Rightarrow> bool \<times> 's) \<Rightarrow> 's \<Rightarrow> bool \<times> 's" where
  "and_also a b s = (case a s of (True, s') \<Rightarrow> b s' | (False, s') \<Rightarrow> (False, s'))"

definition and_next :: "('s \<Rightarrow> bool \<times> 's) \<Rightarrow> ('s \<Rightarrow> bool \<times> 's) \<Rightarrow> 's \<Rightarrow> bool \<times> 's" where
  "and_next a b s = (case a s of (True, s') \<Rightarrow> (True, s') | (False, s') \<Rightarrow> b s')"

text \<open>\<open>unhookAll\<close>; the result tells whether it was left by a fault.\<close>

definition unhookAll :: "Win32 \<Rightarrow> 'r Filter \<Rightarrow> bool \<times> 'r Filter" where
  "unhookAll sys =
     and_next (Hook_unhook sys Connect)
    (and_next (Hook_unhook sys GetHost)
    (and_next (Hook_unhook sys InetAddr)
    (and_next (Hook_unhook sys Recv)
    (and_next (Hook_unhook sys RecvFrom)
    (and_next (Hook_unhook sys WsaRecv)
              (Hook_unhook sys WsaGetOverlapped))))))"

text \<open>\<open>setFilter\<close>: the \<open>int\<close> it returns and the state with the new rule set.\<close>

definition setFilter :: "'r FilterRules \<Rightarrow> string \<Rightarrow> 'r Filter \<Rightarrow> 32 word \<times> 'r Filter" where
  "setFilter ops address s =
     (case rules_install ops (g_rules s) address of
        (result, rules) \<Rightarrow>
          if result
          then (1, s\<lparr>g_rules := rules_append ops rules ''content?.steampowered.com=''\<rparr>)
          else (0, s\<lparr>g_rules := rules\<rparr>))"

text \<open>
  The wait for \<open>WS2_32.DLL\<close>: \<open>poll n\<close> is what \<open>GetModuleHandleW\<close> returns at
  the \<open>n\<close>-th iteration, after \<open>n\<close> sleeps.  The loop has no other exit, so it need
  not return.
\<close>

partial_function (option) wait_for_WS2_32 :: "(nat \<Rightarrow> addr) \<Rightarrow> nat \<Rightarrow> addr option" where
  "wait_for_WS2_32 poll n =
     (let ws2 = poll n in
      if ws2 \<noteq> 0 then Some ws2 else wait_for_WS2_32 poll (Suc n))"

text \<open>The six \<open>attach\<close> calls joined by \<open>&&\<close> in \<open>SteamFilter\<close>.\<close>

definition attach_hooks :: "Win32 \<Rightarrow> Layout \<Rightarrow> addr \<Rightarrow> 'r Filter \<Rightarrow> bool \<times> 'r Filter" where
  "attach_hooks sys lay ws2 =
     and_also (Hook_attach sys lay Connect ws2 ''connect'')
    (and_also (Hook_attach sys lay GetHost ws2 ''gethostbyname'')
    (and_also (Hook_attach sys lay Recv ws2 ''recv'')
    (and_also (Hook_attach sys lay RecvFrom ws2 ''recvfrom'')
    (and_also (Hook_attach sys lay WsaRecv ws2 ''WSARecv'')
              (Hook_attach sys lay WsaGetOverlapped ws2 ''WSAGetOverlappedResult'')))))"

text \<open>
  How an exported entry point is left: by returning its \<open>int\<close>, or by the access
  violation of an \<open>unhook\<close>.  \<open>SteamFilter\<close> is \<open>None\<close> when the wait never ends.
  \<open>~ 0UL\<close> as an \<open>int\<close> is \<open>- 1\<close>.
\<close>

datatype outcome = Returned "32 word" | Faulted

definition SteamFilter ::
  "'r FilterRules \<Rightarrow> Win32 \<Rightarrow> Layout \<Rightarrow> string \<Rightarrow> 'r Filter \<Rightarrow> (outcome \<times> 'r Filter) option" where
  "SteamFilter ops sys lay address s =
     (if m_resume (g_connectResume s) \<noteq> 0
      then (case setFilter ops address s of (r, s') \<Rightarrow> Some (Returned r, s'))
      else
        case wait_for_WS2_32 (GetModuleHandleW sys) 0 of
          None \<Rightarrow> None
        | Some ws2 \<Rightarrow>
            (case setFilter ops address s of
               (ignored, s1) \<Rightarrow>
                 (case attach_hooks sys lay ws2 s1 of
                    (False, s2) \<Rightarrow>
                      (case unhookAll sys s2 of
                         (True, s3) \<Rightarrow> Some (Faulted, s3)
                       | (False, s3) \<Rightarrow> Some (Returned (- 1), s3))
                  | (True, s2) \<Rightarrow>
                      Some (Returned 1,
                            s2\<lparr>g_instance := GetModuleHandleExW sys,
                               references := references s2
                                 + (if GetModuleHandleExW sys \<noteq> 0 then 1 else 0)\<rparr>))))"

definition removeHook :: "Win32 \<Rightarrow> 'r Filter \<Rightarrow> bool \<times> 'r Filter" where
  "removeHook sys s =
     (if m_resume (g_connectResume s) = 0 then (False, s) else unhookAll sys s)"

definition FilterUnload :: "Win32 \<Rightarrow> 'r Filter \<Rightarrow> outcome \<times> 'r Filter" where
  "FilterUnload sys s =
     (if g_instance s = 0 then (Returned 0, s)
      else case removeHook sys s of
             (True, s') \<Rightarrow> (Faulted, s')
           | (False, s') \<Rightarrow>
               (Returned 1, s'\<lparr>references := references s' - 1, g_instance := 0\<rparr>))"

text \<open>A sequence of calls of the two entry points, each with what the system answers.\<close>

datatype 'r entry = Install "'r FilterRules" Win32 string | Unload Win32

fun calls :: "Layout \<Rightarrow> 'r entry list \<Rightarrow> 'r Filter \<Rightarrow> 'r Filter option" where
  "calls lay [] s = Some s"
| "calls lay (Install ops sys address # es) s =
     (case SteamFilter ops sys lay address s of
        None \<Rightarrow> None
      | Some (r, s') \<Rightarrow> calls lay es s')"
| "calls lay (Unload sys # es) s = calls lay es (snd (FilterUnload sys s))"

text \<open>
  A process to run the life cycle on.  \<open>WS2_32.DLL\<close> appears at the third poll; each
  of its exports is 0x100 bytes after the one before; \<open>inet_addr\<close> begins with
  \<open>push 14h\<close> and the other entry points with \<open>mov edi, edi\<close>, after five bytes of
  \<open>nop\<close>.  Every system call succeeds.
\<close>

definition example_exports :: "(string \<times> addr) list" where
  "example_exports =
     [(''connect'', 0x71AB1000), (''gethostbyname'', 0x71AB1100), (''inet_addr'', 0x71AB1200),
      (''recv'', 0x71AB1300), (''recvfrom'', 0x71AB1400), (''WSARecv'', 0x71AB1500),
      (''WSAGetOverlappedResult'', 0x71AB1600)]"

definition example_code :: memory where
  "example_code a =
     (if a = 0x71AB1200 then 0x6A else if a = 0x71AB1201 then 0x14
      else if a AND 0xFFFFF8FF = 0x71AB1000 then 0x8B
      else if a AND 0xFFFFF8FF = 0x71AB1001 then 0xFF
      else 0x90)"

definition example_sys :: Win32 where
  "example_sys =
     \<lparr>GetModuleHandleW = (\<lambda>n. if n < 2 then 0 else 0x71AB0000),
      GetProcAddress = (\<lambda>lib name. if lib = 0x71AB0000
                                      then (case map_of example_exports name of
                                              None \<Rightarrow> 0 | Some a \<Rightarrow> a)
                                      else 0),
      VirtualProtect = (\<lambda>a n. True),
      GetModuleHandleExW = 0x10000000,
      mapped = (\<lambda>a. True)\<rparr>"

definition example_layout :: Layout where
  "example_layout =
     \<lparr>hook_function = (\<lambda>g. case g of
          Connect \<Rightarrow> 0x10001000 | GetHost \<Rightarrow> 0x10001100 | InetAddr \<Rightarrow> 0x10001200
        | Recv \<Rightarrow> 0x10001300 | RecvFrom \<Rightarrow> 0x10001400 | WsaRecv \<Rightarrow> 0x10001500
        | WsaGetOverlapped \<Rightarrow> 0x10001600),
      thunk_address = (\<lambda>g. case g of
          Connect \<Rightarrow> 0x10008014 | GetHost \<Rightarrow> 0x10008038 | InetAddr \<Rightarrow> 0x1000805C
        | Recv \<Rightarrow> 0x10008080 | RecvFrom \<Rightarrow> 0x100080A4 | WsaRecv \<Rightarrow> 0x100080C8
        | WsaGetOverlapped \<Rightarrow> 0x100080EC)\<rparr>"

text \<open>
  The bytes \<open>attach\<close> and \<open>unhook\<close> write for an entry point \<open>p\<close>, the names
  \<open>SteamFilter\<close> looks up, and the addresses that no patch area of these names covers
  in a call of an entry point.
\<close>

definition patch_area :: "addr \<Rightarrow> addr list" where
  "patch_area p = [p - 5, p - 4, p - 3, p - 2, p - 1, p, p + 1]"

definition hooked_names :: "string list" where
  "hooked_names = [''connect'', ''gethostbyname'', ''recv'', ''recvfrom'', ''WSARecv'',
                   ''WSAGetOverlappedResult'']"

fun untouched :: "addr \<Rightarrow> 'r entry \<Rightarrow> bool" where
  "untouched a (Install ops sys address) =
     (case wait_for_WS2_32 (GetModuleHandleW sys) 0 of
        None \<Rightarrow> True
      | Some ws2 \<Rightarrow>
          list_all (\<lambda>name. a \<notin> set (patch_area (GetProcAddress sys ws2 name))) hooked_names)"
| "untouched a (Unload sys) = True"

text \<open>
  Two notions for the proofs: a state transformer keeps a property of the state; and the
  record of \<open>inet_addr\<close> is \<open>h0\<close>, the bytes at the addresses in \<open>A\<close> are those of
  \<open>m0\<close>, and no installed hook has one of these addresses in its patch area.
\<close>

definition keeps :: "('s \<Rightarrow> bool) \<Rightarrow> ('s \<Rightarrow> bool \<times> 's) \<Rightarrow> bool" where
  "keeps P f \<longleftrightarrow> (\<forall>s r s'. P s \<longrightarrow> f s = (r, s') \<longrightarrow> P s')"

definition left_alone :: "addr set \<Rightarrow> memory \<Rightarrow> ApiHook \<Rightarrow> 'r Filter \<Rightarrow> bool" where
  "left_alone A m0 h0 s \<longleftrightarrow>
     g_inet_addr_resume s = h0 \<and>
     (\<forall>a \<in> A. code s a = m0 a \<and>
        (\<forall>g. m_resume (hook_of g s) \<noteq> 0 \<longrightarrow>
               a \<notin> set (patch_area (m_original (hook_of g s)))))"

text \<open>
  A system that refuses to make a thunk executable (every request for 16 bytes) and
  lets the code be patched.
\<close>

definition thunk_refusing_sys :: Win32 where
  "thunk_refusing_sys = example_sys\<lparr>VirtualProtect := (\<lambda>a n. n \<noteq> 16)\<rparr>"

declare wait_for_WS2_32.simps [code]

text \<open>An installation, an unload and a second installation, on the example process.\<close>

definition example_calls :: "(sockaddr option) entry list" where
  "example_calls =
     [Install example_rules example_sys ''*:27030=10.0.0.5'', Unload example_sys,
      Install example_rules example_sys ''*:27030='']"

section \<open>Properties of the bandwidth meter\<close>

lemma take_bit_32_64:
  "take_bit 32 (a + take_bit 32 c) = take_bit 32 (take_bit 64 a + (c::int))"
proof -
  have "take_bit 32 (take_bit 64 a + c) = take_bit 32 (take_bit 32 (take_bit 64 a) + take_bit 32 c)"
    by (simp only: take_bit_add)
  also have "take_bit 32 (take_bit 64 a) = take_bit 32 a"
    by (simp add: take_bit_take_bit)
  also have "take_bit 32 (take_bit 32 a + take_bit 32 c) = take_bit 32 (a + c)"
    by (simp only: take_bit_add)
  finally have r: "take_bit 32 (take_bit 64 a + c) = take_bit 32 (a + c)" .
  have "take_bit 32 (a + take_bit 32 c) = take_bit 32 (take_bit 32 a + take_bit 32 (take_bit 32 c))"
    by (simp only: take_bit_add)
  also have "\<dots> = take_bit 32 (a + c)" by (simp add: take_bit_add)
  finally show ?thesis using r by simp
qed

lemma ucast_total_add:
  "(ucast (a + ucast (c :: 32 word) :: 64 word) :: 32 word) = ucast a + c"
  by transfer (simp add: take_bit_32_64)

lemma sint_nonneg_uint: "0 \<le> sint (b :: 32 word) \<Longrightarrow> sint b = uint b"
proof -
  assume a: "0 \<le> sint b"
  have "sint b < 2 ^ 32" using sint_lt [of b] by simp
  then have "take_bit 32 (sint b) = sint b" using a by (simp add: take_bit_int_eq_self)
  then show ?thesis using uint_sint [of b] by simp
qed

text \<open>Rolling the window moves bytes from the window counter to the total.\<close>

lemma counted_uint:
  "b = SOCKET_ERROR \<or> 0 \<le> sint b \<Longrightarrow> counted b = uint (if b = SOCKET_ERROR then 0 else b)"
  by (auto simp: counted_def sint_nonneg_uint)

lemma counted_nonneg: "b = SOCKET_ERROR \<or> 0 \<le> sint b \<Longrightarrow> 0 \<le> counted b"
  by (auto simp: counted_def)

lemma newTick_accounted64:
  assumes "accounted m < 2 ^ 64"
  shows "accounted (newTick now m) = accounted m"
proof -
  have "uint (m_total m) + uint (ucast (m_currentBytes m) :: 64 word) < 2 ^ 64"
    using assms by (simp add: accounted_def uint_up_ucast is_up)
  then have "uint (m_total m + ucast (m_currentBytes m)) = uint (m_total m) + uint (m_currentBytes m)"
    by (simp add: uint_add_lem [THEN iffD1] uint_up_ucast is_up)
  then show ?thesis
    by (simp add: newTick_def accounted_def Let_def)
qed

lemma Meter_add_accounted64:
  assumes nonneg: "b = SOCKET_ERROR \<or> 0 \<le> sint b"
      and fits: "uint (m_currentBytes (newTick now m)) + counted b < 2 ^ 32"
      and total: "accounted m < 2 ^ 64"
  shows "accounted (Meter_add now b m) = accounted m + counted b"
proof -
  define b' where "b' = (if b = SOCKET_ERROR then 0 else b)"
  define m1 where "m1 = newTick now m"
  have cb: "counted b = uint b'"
    using nonneg by (simp add: b'_def counted_uint)
  have acc1: "accounted m1 = accounted m"
    using total by (simp add: m1_def newTick_accounted64)
  have "uint (m_currentBytes m1) + uint b' < 2 ^ 32"
    using fits cb by (simp add: m1_def)
  then have "uint (m_currentBytes m1 + b') = uint (m_currentBytes m1) + uint b'"
    by (simp add: uint_add_lem [THEN iffD1])
  then have "accounted (m1\<lparr>m_currentBytes := m_currentBytes m1 + b'\<rparr>) = accounted m1 + uint b'"
    by (simp add: accounted_def)
  then show ?thesis
    by (simp add: Meter_add_def Let_def m1_def [symmetric] b'_def [symmetric] acc1 cb)
qed

lemma Meter_adds_accounted64:
  assumes "\<forall>c \<in> set cs. snd c = SOCKET_ERROR \<or> 0 \<le> sint (snd c)"
      and "window_fits cs m"
      and "accounted m + (\<Sum>c\<leftarrow>cs. counted (snd c)) < 2 ^ 63"
  shows "accounted (Meter_adds cs m) = accounted m + (\<Sum>c\<leftarrow>cs. counted (snd c))"
  using assms
proof (induction cs arbitrary: m)
  case Nil
  then show ?case by simp
next
  case (Cons c cs)
  obtain now b where c: "c = (now, b)" by (cases c)
  have nb: "b = SOCKET_ERROR \<or> 0 \<le> sint b" using Cons.prems(1) c by simp
  have rest: "0 \<le> (\<Sum>c\<leftarrow>cs. counted (snd c))"
    using Cons.prems(1) by (intro sum_list_nonneg) (auto simp: counted_nonneg)
  have "0 \<le> counted b" using nb by (rule counted_nonneg)
  then have "accounted m < 2 ^ 64"
    using Cons.prems(3) rest c by simp
  moreover have "uint (m_currentBytes (newTick now m)) + counted b < 2 ^ 32"
    using Cons.prems(2) c by simp
  ultimately have step: "accounted (Meter_add now b m) = accounted m + counted b"
    using nb by (intro Meter_add_accounted64)
  have "accounted (Meter_adds cs (Meter_add now b m))
          = accounted (Meter_add now b m) + (\<Sum>c\<leftarrow>cs. counted (snd c))"
    using Cons.prems step c by (intro Cons.IH) simp_all
  then show ?case using step c by simp
qed

lemma sint_small64: "uint (w :: 64 word) < 2 ^ 63 \<Longrightarrow> sint w = uint w"
proof -
  assume a: "uint w < 2 ^ 63"
  have "(0::int) \<le> 2 ^ 63" by simp
  then have "- (2 ^ 63) \<le> uint w"
    using uint_ge_0 [of w] by linarith
  then have "signed_take_bit 63 (uint w) = uint w"
    using a by (simp add: signed_take_bit_int_eq_self)
  then show ?thesis by (simp add: sint_uint)
qed

text \<open>
  Without any bound on the counts the same balance holds in the 32-bit arithmetic of the
  window counter: the low half of the total plus the window counter is the wrapped sum.
\<close>

lemma Meter_add_mod32:
  "ucast (m_total (Meter_add now b m)) + m_currentBytes (Meter_add now b m)
     = (ucast (m_total m) :: 32 word) + m_currentBytes m + (if b = SOCKET_ERROR then 0 else b)"
  by (simp add: Meter_add_def newTick_def Let_def ucast_total_add)

lemma Meter_adds_mod32:
  "ucast (m_total (Meter_adds cs m)) + m_currentBytes (Meter_adds cs m)
     = (ucast (m_total m) :: 32 word) + m_currentBytes m
       + (\<Sum>c\<leftarrow>cs. if snd c = SOCKET_ERROR then 0 else snd c)"
proof (induction cs arbitrary: m)
  case Nil
  then show ?case by simp
next
  case (Cons c cs)
  obtain now b where c: "c = (now, b)" by (cases c)
  show ?case by (simp add: c Cons.IH Meter_add_mod32 add.assoc)
qed

text \<open>
  C3, as stated: after any sequence of \<open>add\<close> calls the cumulative total \<open>m_total\<close>
  is the sum of the non-error byte counts.  It is not: the bytes of the window that is
  still open are in \<open>m_currentBytes\<close>, and \<open>newTick\<close> moves them to the total only
  when a later call sees the clock advance.  One call adding 5 bytes leaves the total 0.
\<close>

theorem Meter_total_counterexample:
  "uint (m_total (Meter_adds [(1, 5)] (Meter_init 0)))
     \<noteq> (\<Sum>c\<leftarrow>[(1, 5 :: 32 word)]. counted (snd c))"
  by (simp add: Meter_init_def Meter_add_def newTick_def counted_def SOCKET_ERROR_def)

text \<open>
  C3, amended: after any sequence of \<open>add\<close> calls on a new meter, the cumulative total
  plus the bytes of the current window is the sum of the non-error byte counts, the error
  sentinel counting as zero.  The counts are non-negative \<open>int\<close>s (or the sentinel),
  no window collects more than its 32-bit counter holds, and the sum fits the signed
  64-bit total.
\<close>

theorem Meter_total_plus_window:
  assumes "\<forall>c \<in> set cs. snd c = SOCKET_ERROR \<or> 0 \<le> sint (snd c)"
      and "window_fits cs (Meter_init t0)"
      and "(\<Sum>c\<leftarrow>cs. counted (snd c)) < 2 ^ 63"
  shows "sint (m_total (Meter_adds cs (Meter_init t0)))
           + uint (m_currentBytes (Meter_adds cs (Meter_init t0)))
         = (\<Sum>c\<leftarrow>cs. counted (snd c))"
proof -
  let ?m = "Meter_adds cs (Meter_init t0)"
  have "accounted (Meter_init t0) = 0" by (simp add: accounted_def Meter_init_def)
  then have a: "accounted ?m = (\<Sum>c\<leftarrow>cs. counted (snd c))"
    using Meter_adds_accounted64 [of cs "Meter_init t0"] assms by simp
  have "uint (m_total ?m) \<le> accounted ?m"
    by (simp add: accounted_def)
  then have "uint (m_total ?m) < 2 ^ 63" using a assms(3) by simp
  then have "sint (m_total ?m) = uint (m_total ?m)"
    by (rule sint_small64)
  then show ?thesis using a by (simp add: accounted_def)
qed

theorem Meter_total_plus_window_witness:
  "0 \<le> sint (0x7FFFFFFF :: 32 word)
   \<and> window_fits [(1, 0x7FFFFFFF), (2, SOCKET_ERROR), (2, 0x7FFFFFFF), (3, 0x7FFFFFFF)]
         (Meter_init 0)
   \<and> (\<Sum>c\<leftarrow>[(1 :: 32 word, 0x7FFFFFFF), (2, SOCKET_ERROR), (2, 0x7FFFFFFF),
                (3, 0x7FFFFFFF :: 32 word)]. counted (snd c)) = 6442450941
   \<and> sint (m_total (Meter_adds
              [(1, 0x7FFFFFFF), (2, SOCKET_ERROR), (2, 0x7FFFFFFF), (3, 0x7FFFFFFF)]
              (Meter_init 0)))
      + uint (m_currentBytes (Meter_adds
                [(1, 0x7FFFFFFF), (2, SOCKET_ERROR), (2, 0x7FFFFFFF), (3, 0x7FFFFFFF)]
                (Meter_init 0))) = 6442450941
   \<and> m_total (Meter_adds
         [(1, 0x7FFFFFFF), (2, SOCKET_ERROR), (2, 0x7FFFFFFF), (3, 0x7FFFFFFF)]
         (Meter_init 0)) = 4294967294"
proof -
  let ?cs = "[(1 :: 32 word, 0x7FFFFFFF), (2, SOCKET_ERROR), (2, 0x7FFFFFFF),
              (3, 0x7FFFFFFF :: 32 word)]"
  have h1: "\<forall>c \<in> set ?cs. snd c = SOCKET_ERROR \<or> 0 \<le> sint (snd c)"
    by (simp add: SOCKET_ERROR_def)
  have h2: "window_fits ?cs (Meter_init 0)"
    by (simp add: Meter_init_def Meter_add_def newTick_def counted_def SOCKET_ERROR_def)
  have sum: "(\<Sum>c\<leftarrow>?cs. counted (snd c)) = 6442450941"
    by (simp add: counted_def SOCKET_ERROR_def)
  have h3: "(\<Sum>c\<leftarrow>?cs. counted (snd c)) < 2 ^ 63"
    unfolding sum by simp
  have t: "m_total (Meter_adds ?cs (Meter_init 0)) = 4294967294"
    by (simp add: Meter_init_def Meter_add_def newTick_def SOCKET_ERROR_def)
  have "0 \<le> sint (0x7FFFFFFF :: 32 word)" by simp
  then show ?thesis
    using h2 sum t Meter_total_plus_window [OF h1 h2 h3] by simp
qed

text \<open>
  The window condition is needed: three counts of \<open>0x7FFFFFFF\<close> within one tick
  wrap the window counter, and the sum is no longer what the meter holds.
\<close>

lemma Meter_window_wraps:
  "sint (m_total (Meter_adds [(0, 0x7FFFFFFF), (0, 0x7FFFFFFF), (0, 0x7FFFFFFF)]
                    (Meter_init 0)))
     + uint (m_currentBytes (Meter_adds [(0, 0x7FFFFFFF), (0, 0x7FFFFFFF), (0, 0x7FFFFFFF)]
                    (Meter_init 0))) = 2147483645
   \<and> (\<Sum>c\<leftarrow>[(0 :: 32 word, 0x7FFFFFFF), (0, 0x7FFFFFFF), (0, 0x7FFFFFFF :: 32 word)].
        counted (snd c)) = 6442450941"
  by (simp add: Meter_init_def Meter_add_def newTick_def counted_def SOCKET_ERROR_def)

section \<open>Properties of the policy handlers\<close>

text \<open>
  C1: a connect call to an IPv4 destination that matches a rule with a replacement other
  than the deny sentinel makes exactly one call to the original \<open>connect\<close>, with the
  caller's family, the replacement's port and address where they are nonzero and the
  caller's where they are zero; its result is returned.
\<close>

theorem connect_redirect:
  assumes "sa_family name = AF_INET"
      and "rules_match_addr ops rules name 0 = (True, Some replace)"
      and "sin_addr replace \<noteq> INADDR_NONE"
  shows "connectHook ops rules resume stack s name namelen =
           (let forwarded =
                  \<lparr>sa_family = sa_family name,
                   sin_port = (if sin_port replace \<noteq> 0 then sin_port replace else sin_port name),
                   sin_addr = (if sin_addr replace \<noteq> 0 then sin_addr replace else sin_addr name),
                   sin_zero = stack\<rparr>
            in (resume s forwarded 16,
                [OutputDebugStringA (''Connect redirected'' @ CRLF),
                 Resume_connect s forwarded 16]))"
  using assms by (simp add: connectHook_def Let_def)

theorem connect_redirect_witness:
  "sa_family \<lparr>sa_family = AF_INET, sin_port = 443, sin_addr = 0x01020304, sin_zero = []\<rparr> = AF_INET
   \<and> rules_match_addr example_rules
        (Some \<lparr>sa_family = AF_INET, sin_port = 0, sin_addr = 0x0A000005, sin_zero = []\<rparr>)
        \<lparr>sa_family = AF_INET, sin_port = 443, sin_addr = 0x01020304, sin_zero = []\<rparr> 0
       = (True, Some \<lparr>sa_family = AF_INET, sin_port = 0, sin_addr = 0x0A000005, sin_zero = []\<rparr>)
   \<and> sin_addr \<lparr>sa_family = AF_INET, sin_port = 0, sin_addr = 0x0A000005, sin_zero = []\<rparr>
       \<noteq> INADDR_NONE
   \<and> connectHook example_rules
        (Some \<lparr>sa_family = AF_INET, sin_port = 0, sin_addr = 0x0A000005, sin_zero = []\<rparr>)
        (\<lambda>s name namelen. 0) [] 7
        \<lparr>sa_family = AF_INET, sin_port = 443, sin_addr = 0x01020304, sin_zero = []\<rparr> 16
       = (0, [OutputDebugStringA (''Connect redirected'' @ CRLF),
              Resume_connect 7
                \<lparr>sa_family = AF_INET, sin_port = 443, sin_addr = 0x0A000005, sin_zero = []\<rparr> 16])"
  using connect_redirect
    [of "\<lparr>sa_family = AF_INET, sin_port = 443, sin_addr = 0x01020304, sin_zero = []\<rparr>"
      example_rules
      "Some \<lparr>sa_family = AF_INET, sin_port = 0, sin_addr = 0x0A000005, sin_zero = []\<rparr>"
      "\<lparr>sa_family = AF_INET, sin_port = 0, sin_addr = 0x0A000005, sin_zero = []\<rparr>"
      "\<lambda>s name namelen. 0" "[]" 7 16]
  by (simp add: example_rules_def INADDR_NONE_def Let_def)

text \<open>
  C2: when the rule matched by an IPv4 destination has no replacement, or a replacement
  whose address is \<open>INADDR_NONE\<close>, \<open>connectHook\<close> makes no call to the original
  \<open>connect\<close>, sets the last error to \<open>WSAECONNREFUSED\<close> and returns
  \<open>SOCKET_ERROR\<close>; when the rule matched by a host name is such a rule,
  \<open>gethostHook\<close> makes no call to the original resolver, sets the last error to
  \<open>WSAHOST_NOT_FOUND\<close> and returns null.
\<close>

theorem deny_refuses_without_calling:
  "(sa_family name = AF_INET \<and> rules_match_addr ops rules name 0 = (True, replace)
      \<and> (replace = None \<or> (\<exists>r. replace = Some r \<and> sin_addr r = INADDR_NONE))
     \<longrightarrow> connectHook ops rules resume stack s name namelen =
           (SOCKET_ERROR,
            [OutputDebugStringA (''Connect refused'' @ CRLF), SetLastError WSAECONNREFUSED]))
   \<and> (rules_match_name ops rules host = (True, replace)
      \<and> (replace = None \<or> (\<exists>r. replace = Some r \<and> sin_addr r = INADDR_NONE))
     \<longrightarrow> gethostHook ops rules resolve host =
           (None,
            [OutputDebugStringA (''gethostbyname refused'' @ CRLF),
             SetLastError WSAHOST_NOT_FOUND]))"
  by (auto simp: connectHook_def gethostHook_def Let_def INADDR_NONE_def INADDR_ANY_def)

theorem deny_refuses_without_calling_witness:
  "sa_family \<lparr>sa_family = AF_INET, sin_port = 27030, sin_addr = 0x01020304, sin_zero = []\<rparr>
     = AF_INET
   \<and> rules_match_addr example_rules None
        \<lparr>sa_family = AF_INET, sin_port = 27030, sin_addr = 0x01020304, sin_zero = []\<rparr> 0
       = (True, None)
   \<and> connectHook example_rules None (\<lambda>s name namelen. 0) [] 7
        \<lparr>sa_family = AF_INET, sin_port = 27030, sin_addr = 0x01020304, sin_zero = []\<rparr> 16
       = (SOCKET_ERROR,
          [OutputDebugStringA (''Connect refused'' @ CRLF), SetLastError WSAECONNREFUSED])
   \<and> rules_match_name example_rules None ''content1.steampowered.com'' = (True, None)
   \<and> gethostHook example_rules None (\<lambda>name. None) ''content1.steampowered.com''
       = (None,
          [OutputDebugStringA (''gethostbyname refused'' @ CRLF),
           SetLastError WSAHOST_NOT_FOUND])"
  using deny_refuses_without_calling
    [of "\<lparr>sa_family = AF_INET, sin_port = 27030, sin_addr = 0x01020304, sin_zero = []\<rparr>"
      example_rules None None "\<lambda>s name namelen. 0" "[]" 7 16
      "''content1.steampowered.com''" "\<lambda>name. None"]
  by (simp add: example_rules_def)

text \<open>
  C9: a connect call whose destination is of another family than \<open>AF_INET\<close> makes
  one call to the original \<open>connect\<close> with the caller's own arguments and returns its
  result, whatever the rule engine and the rule set are.
\<close>

theorem connect_other_family_forwarded:
  assumes "sa_family name \<noteq> AF_INET"
  shows "connectHook ops rules resume stack s name namelen =
           (resume s name namelen, [Resume_connect s name namelen])"
  using assms by (simp add: connectHook_def)

theorem connect_other_family_forwarded_witness:
  "sa_family \<lparr>sa_family = 23, sin_port = 443, sin_addr = 0, sin_zero = [1, 2, 3]\<rparr> \<noteq> AF_INET
   \<and> connectHook example_rules None (\<lambda>s name namelen. 0) [] 7
        \<lparr>sa_family = 23, sin_port = 443, sin_addr = 0, sin_zero = [1, 2, 3]\<rparr> 28
       = (0, [Resume_connect 7
                \<lparr>sa_family = 23, sin_port = 443, sin_addr = 0, sin_zero = [1, 2, 3]\<rparr> 28])"
  using connect_other_family_forwarded
    [of "\<lparr>sa_family = 23, sin_port = 443, sin_addr = 0, sin_zero = [1, 2, 3]\<rparr>"
      example_rules None "\<lambda>s name namelen. 0" "[]" 7 28]
  by (simp add: AF_INET_def)

section \<open>Properties of the metering handlers\<close>

text \<open>
  What holds of the peek exclusion and of overlapped completions: \<open>wsaRecvHook\<close>
  leaves the meter alone for a plain (not overlapped) receive whose flags carry
  \<open>MSG_PEEK\<close>, and an overlapped receive that returns 0 at once adds the
  \<open>InternalHigh\<close> of its completion block.
\<close>

lemma wsaRecv_peek_not_metered:
  assumes "overlapped = 0" "handler = 0" "flags = Some f" "f AND MSG_PEEK \<noteq> 0"
  shows "wsaRecvHook resume now s buffers count received flags overlapped handler m =
           Inr (wr_result (resume s buffers count received flags overlapped handler), m)"
  using assms by (simp add: wsaRecvHook_def Let_def)

lemma wsaRecv_overlapped_synchronous:
  assumes "overlapped \<noteq> 0"
      and "wr_result (resume s buffers count received flags overlapped handler) = 0"
  shows "wsaRecvHook resume now s buffers count received flags overlapped handler m =
           Inr (0, Meter_add now
                     (wr_InternalHigh (resume s buffers count received flags overlapped handler)) m)"
  using assms by (simp add: wsaRecvHook_def Let_def)

lemma Meter_add_window:
  "b \<noteq> SOCKET_ERROR \<Longrightarrow>
   m_currentBytes (Meter_add now b m) = (if now = m_now m then m_currentBytes m else 0) + b"
  by (simp add: Meter_add_def newTick_def Let_def word_less_1)

text \<open>
  C4 at a failing input: \<open>recv\<close> called with \<open>MSG_PEEK\<close>, the original returning 10
  bytes.  \<open>recvHook\<close> has no test of the flags, so the 10 bytes enter the window counter,
  and the cumulative total once the window rolls; \<open>recvfromHook\<close> does the same.
\<close>

theorem recv_peek_is_metered:
  "recvHook (\<lambda>s buf len flags. 10) 1 7 0x1000 100 MSG_PEEK (Meter_init 1)
     = (10, (Meter_init 1)\<lparr>m_currentBytes := 10\<rparr>)
   \<and> m_total (Meter_add 2 0
        (snd (recvHook (\<lambda>s buf len flags. 10) 1 7 0x1000 100 MSG_PEEK (Meter_init 1)))) = 10
   \<and> recvfromHook (\<lambda>s buf len flags from fromLen. 10) 1 7 0x1000 100 MSG_PEEK 0 0 (Meter_init 1)
     = (10, (Meter_init 1)\<lparr>m_currentBytes := 10\<rparr>)"
  by (simp add: recvHook_def recvfromHook_def Meter_add_def newTick_def Meter_init_def
      SOCKET_ERROR_def Let_def)

section \<open>Properties of the code patcher\<close>

lemma read_u16_low: "(ucast (read_u16 mem a) :: byte) = mem a"
  unfolding read_u16_def
  by (rule bit_word_eqI) (auto simp: bit_simps)

lemma read_u16_high: "(ucast (drop_bit 8 (read_u16 mem a)) :: byte) = mem (a + 1)"
  unfolding read_u16_def
  by (rule bit_word_eqI) (auto simp: bit_simps dest: bit_imp_le_length)

text \<open>The 16-bit test of \<open>attach\<close> is a test of the two bytes \<open>8B FF\<close>.\<close>

lemma read_u16_MOV_EDI_EDI:
  "read_u16 mem a = MOV_EDI_EDI \<longleftrightarrow> mem a = 0x8B \<and> mem (a + 1) = 0xFF"
proof
  assume e: "read_u16 mem a = MOV_EDI_EDI"
  have "mem a = ucast MOV_EDI_EDI"
    using read_u16_low [of mem a] e by simp
  moreover have "mem (a + 1) = ucast (drop_bit 8 MOV_EDI_EDI)"
    using read_u16_high [of mem a] e by simp
  ultimately show "mem a = 0x8B \<and> mem (a + 1) = 0xFF"
    by (simp add: MOV_EDI_EDI_def)
next
  assume "mem a = 0x8B \<and> mem (a + 1) = 0xFF"
  then show "read_u16 mem a = MOV_EDI_EDI"
    by (simp add: read_u16_def MOV_EDI_EDI_def)
qed

lemma read_bytes_8:
  "read_bytes mem a 8 =
     [mem a, mem (a + 1), mem (a + 2), mem (a + 3), mem (a + 4), mem (a + 5), mem (a + 6),
      mem (a + 7)]"
  by (simp add: numeral_eq_Suc add.assoc)

lemma writeOffset_length: "\<exists>b0 b1 b2 b3. writeOffset v = [b0, b1, b2, b3]"
  by (simp add: writeOffset_def Let_def)

lemma write_bytes_frame:
  "(\<forall>i < length bs. a \<noteq> p + of_nat i) \<Longrightarrow> write_bytes mem p bs a = mem a"
proof (induction bs arbitrary: mem p)
  case Nil
  then show ?case by simp
next
  case (Cons b bs)
  have "\<forall>i < length bs. a \<noteq> (p + 1) + of_nat i"
  proof (intro allI impI)
    fix i assume "i < length bs"
    then have "a \<noteq> p + of_nat (Suc i)" using Cons.prems by auto
    then show "a \<noteq> (p + 1) + of_nat i" by (simp add: ac_simps)
  qed
  then have "write_bytes (mem(p := b)) (p + 1) bs a = (mem(p := b)) a"
    by (rule Cons.IH)
  moreover have "a \<noteq> p" using Cons.prems by force
  ultimately show ?case by simp
qed

lemma patch_area_index:
  assumes "a \<notin> set (patch_area p)" "i < 7"
  shows "a \<noteq> (p - 5) + of_nat i"
proof -
  have "i = 0 \<or> i = 1 \<or> i = 2 \<or> i = 3 \<or> i = 4 \<or> i = 5 \<or> i = 6"
    using assms(2) by arith
  then show ?thesis
    using assms(1) by (auto simp: patch_area_def)
qed

text \<open>Writing the first seven saved bytes back over a patch gives the memory before it.\<close>

lemma patch_undone:
  "write_bytes
     (write_u16 (write_bytes (mem(p - 5 := j)) (p - 4) [b0, b1, b2, b3]) p v)
     (p - 5) (take 7 (read_bytes mem (p - 5) 8)) = mem"
  by (rule ext) (simp add: read_bytes_8 write_u16_def add.commute)

lemma attach_True:
  assumes "attach sys thunk p hook h mem = (True, h', mem')"
  shows "m_original h' = p \<and> m_save h' = read_bytes mem (p - 5) 8 \<and> m_hook h' = hook
         \<and> mem' = write_u16 (write_bytes (mem(p - 5 := JMP_LONG)) (p - 4)
                                 (writeOffset (hook - p)))
                    p JMP_SHORT_MINUS5"
  using assms
  by (auto simp: attach_def Let_def makeThunk_def split: if_splits option.splits prod.splits)

text \<open>
  The round trip where the record is installed: after an \<open>attach\<close> that returned true
  and left a resume pointer, \<open>unhook\<close> (the target still mapped) gives back the memory
  as it was before, at every address.
\<close>

lemma unhook_restores:
  assumes a: "attach sys thunk p hook h mem = (True, h', mem')"
      and r: "m_resume h' \<noteq> 0"
      and m: "mapped sys' (p - 5)"
  shows "unhook sys' h' mem' = (False, h'\<lparr>m_original := 0, m_resume := 0\<rparr>, mem)"
proof -
  obtain b0 b1 b2 b3 where w: "writeOffset (hook - p) = [b0, b1, b2, b3]"
    using writeOffset_length by blast
  have mo: "m_original h' = p" and ms: "m_save h' = read_bytes mem (p - 5) 8"
    and me: "mem' = write_u16 (write_bytes (mem(p - 5 := JMP_LONG)) (p - 4)
                                 (writeOffset (hook - p)))
                      p JMP_SHORT_MINUS5"
    using attach_True [OF a] by simp_all
  have "write_bytes mem' (p - 5) (take 7 (m_save h')) = mem"
    unfolding me ms w by (rule patch_undone)
  then show ?thesis
    using r m mo by (simp add: unhook_def)
qed

lemma attach_result:
  assumes "attach sys thunk p hook h mem = (ok, h', mem')"
  shows "(ok \<longrightarrow> m_original h' = p \<and> m_save h' = read_bytes mem (p - 5) 8)
         \<and> (\<forall>a. a \<notin> set (patch_area p) \<longrightarrow> mem' a = mem a)
         \<and> (\<not> ok \<longrightarrow> mem' = mem)"
proof -
  obtain b0 b1 b2 b3 where w: "writeOffset (hook - p) = [b0, b1, b2, b3]"
    using writeOffset_length by blast
  show ?thesis
    using assms
    by (auto simp: attach_def Let_def makeThunk_def w write_u16_def patch_area_def
             split: if_splits option.splits prod.splits)
qed

lemma attach_export_result:
  assumes "attach_export sys thunk hook lib name h mem = (ok, h', mem')"
  shows "(m_resume h' \<noteq> 0 \<longrightarrow> m_original h' = GetProcAddress sys lib name)
         \<and> (\<forall>a. a \<notin> set (patch_area (GetProcAddress sys lib name)) \<longrightarrow> mem' a = mem a)
         \<and> (\<not> ok \<longrightarrow> mem' = mem \<and> m_resume h' = 0)"
  using assms
  by (auto simp: attach_export_def Let_def split: if_splits prod.splits bool.splits
           dest!: attach_result)

lemma unhook_result:
  assumes "unhook sys h mem = (f, h', mem')"
  shows "m_resume h' = 0
         \<and> (m_resume h = 0 \<longrightarrow> h' = h \<and> mem' = mem \<and> \<not> f)
         \<and> (\<forall>a. a \<notin> set (patch_area (m_original h)) \<longrightarrow> mem' a = mem a)"
proof -
  have "write_bytes mem (m_original h - 5) (take 7 (m_save h)) a = mem a"
    if "a \<notin> set (patch_area (m_original h))" for a
    using patch_area_index [OF that] by (intro write_bytes_frame) simp
  then show ?thesis
    using assms by (auto simp: unhook_def split: if_splits)
qed

text \<open>
  C8: \<open>attach\<close> returns false when the target address is null, and when the bytes at
  the target are neither \<open>8B FF\<close> (\<open>mov edi, edi\<close>) nor begin with \<open>6A\<close>
  (\<open>push imm8\<close>); in both cases the memory is the same afterwards, at every address.
\<close>

theorem attach_failure_leaves_code:
  assumes "address = 0
           \<or> (\<not> (mem address = 0x8B \<and> mem (address + 1) = 0xFF) \<and> mem address \<noteq> 0x6A)"
  shows "\<exists>h'. attach sys thunk address hook h mem = (False, h', mem)"
  using assms
  by (auto simp: attach_def Let_def read_u16_MOV_EDI_EDI PUSH_IMM8_def)

theorem attach_failure_leaves_code_witness:
  "example_code 0x71AB1003 = 0x90
   \<and> (\<exists>h'. attach example_sys 0x10008014 0x71AB1003 0x10001000 ApiHook_new example_code
              = (False, h', example_code))
   \<and> (\<exists>h'. attach example_sys 0x10008014 0 0x10001000 ApiHook_new example_code
              = (False, h', example_code))"
proof -
  have c: "example_code 0x71AB1003 = 0x90" by code_simp
  have "\<exists>h'. attach example_sys 0x10008014 0x71AB1003 0x10001000 ApiHook_new example_code
              = (False, h', example_code)"
    by (rule attach_failure_leaves_code) (simp add: c)
  moreover
  have "\<exists>h'. attach example_sys 0x10008014 0 0x10001000 ApiHook_new example_code
              = (False, h', example_code)"
    by (rule attach_failure_leaves_code) simp
  ultimately show ?thesis using c by simp
qed

text \<open>
  C5 at a failing input: the entry point begins with \<open>push 14h\<close>, so \<open>attach\<close>
  builds a thunk, and \<open>VirtualProtect\<close> refuses to make the thunk executable.
  \<open>makeThunk\<close> returns 0, \<open>attach\<close> stores that in \<open>m_resume\<close> without a test,
  patches the entry point and returns true.  \<open>unhook\<close> takes the null resume pointer
  for a record that is not installed and returns at once: the seven bytes stay patched.
\<close>

theorem attach_without_thunk_not_restored:
  "(case attach thunk_refusing_sys 0x1000805C 0x71AB1200 0x10001200 ApiHook_new example_code of
      (ok, h, mem) \<Rightarrow>
        ok \<and> m_resume h = 0 \<and>
        (case unhook thunk_refusing_sys h mem of
           (faulted, h', mem') \<Rightarrow>
             \<not> faulted \<and>
             read_bytes mem' (0x71AB1200 - 5) 7 = [0xE9, 0, 0, 0x55, 0x9E, 0xEB, 0xF9]))
   \<and> read_bytes example_code (0x71AB1200 - 5) 7 = [0x90, 0x90, 0x90, 0x90, 0x90, 0x6A, 0x14]"
  by code_simp

section \<open>Properties of the life cycle\<close>

lemma hook_of_update [simp]:
  "hook_of g (hook_update g' h s) = (if g = g' then h else hook_of g s)"
  by (cases g; cases g'; simp)

lemma hook_update_fields [simp]:
  "g_rules (hook_update g h s) = g_rules s"
  "g_instance (hook_update g h s) = g_instance s"
  "code (hook_update g h s) = code s"
  "references (hook_update g h s) = references s"
  by (cases g; simp)+

lemma hook_of_other_fields [simp]:
  "hook_of g (s\<lparr>code := m\<rparr>) = hook_of g s"
  "hook_of g (s\<lparr>g_rules := r\<rparr>) = hook_of g s"
  "hook_of g (s\<lparr>g_instance := i\<rparr>) = hook_of g s"
  "hook_of g (s\<lparr>references := n\<rparr>) = hook_of g s"
  by (cases g; simp)+

lemma inet_addr_hook_update [simp]:
  "g_inet_addr_resume (hook_update g h s) = (if g = InetAddr then h else g_inet_addr_resume s)"
  by (cases g; simp)

lemma keeps_and_also:
  assumes "keeps P a" "keeps P b"
  shows "keeps P (and_also a b)"
  unfolding keeps_def
proof (intro allI impI)
  fix s r s'
  assume P: "P s" and e: "and_also a b s = (r, s')"
  obtain ra sa where a: "a s = (ra, sa)" by (cases "a s")
  have Pa: "P sa" using assms(1) P a unfolding keeps_def by blast
  show "P s'"
  proof (cases ra)
    case True
    then have "b sa = (r, s')" using e a by (simp add: and_also_def)
    then show ?thesis using assms(2) Pa unfolding keeps_def by blast
  next
    case False
    then have "s' = sa" using e a by (simp add: and_also_def)
    then show ?thesis using Pa by simp
  qed
qed

lemma keeps_and_next:
  assumes "keeps P a" "keeps P b"
  shows "keeps P (and_next a b)"
  unfolding keeps_def
proof (intro allI impI)
  fix s r s'
  assume P: "P s" and e: "and_next a b s = (r, s')"
  obtain ra sa where a: "a s = (ra, sa)" by (cases "a s")
  have Pa: "P sa" using assms(1) P a unfolding keeps_def by blast
  show "P s'"
  proof (cases ra)
    case True
    then have "s' = sa" using e a by (simp add: and_next_def)
    then show ?thesis using Pa by simp
  next
    case False
    then have "b sa = (r, s')" using e a by (simp add: and_next_def)
    then show ?thesis using assms(2) Pa unfolding keeps_def by blast
  qed
qed

lemma Hook_unhook_left_alone:
  assumes I: "left_alone A m0 h0 s" and z: "m_resume h0 = 0"
      and u: "Hook_unhook sys g s = (f, s')"
  shows "left_alone A m0 h0 s'"
proof -
  obtain h' mem' where r: "unhook sys (hook_of g s) (code s) = (f, h', mem')"
    and s': "s' = (hook_update g h' s)\<lparr>code := mem'\<rparr>"
    using u by (auto simp: Hook_unhook_def split: prod.splits)
  note R = unhook_result [OF r]
  have inet: "g = InetAddr \<Longrightarrow> h' = h0"
    using R I z by (simp add: left_alone_def)
  have "mem' a = code s a" if "a \<in> A" for a
  proof (cases "m_resume (hook_of g s) = 0")
    case True
    then show ?thesis using R by simp
  next
    case False
    then have "a \<notin> set (patch_area (m_original (hook_of g s)))"
      using I that by (simp add: left_alone_def)
    then show ?thesis using R by simp
  qed
  then show ?thesis
    using I R inet by (auto simp: left_alone_def s')
qed

lemma Hook_attach_left_alone:
  assumes I: "left_alone A m0 h0 s" and g: "g \<noteq> InetAddr"
      and d: "\<forall>a \<in> A. a \<notin> set (patch_area (GetProcAddress sys lib name))"
      and u: "Hook_attach sys lay g lib name s = (ok, s')"
  shows "left_alone A m0 h0 s'"
proof -
  obtain h' mem' where
    r: "attach_export sys (thunk_address lay g) (hook_function lay g) lib name
          (hook_of g s) (code s) = (ok, h', mem')"
    and s': "s' = (hook_update g h' s)\<lparr>code := mem'\<rparr>"
    using u by (auto simp: Hook_attach_def split: prod.splits)
  note R = attach_export_result [OF r]
  show ?thesis
    using I R g d by (auto simp: left_alone_def s')
qed

lemma unhookAll_left_alone:
  assumes "m_resume h0 = 0"
  shows "keeps (left_alone A m0 h0) (unhookAll sys)"
proof -
  have "keeps (left_alone A m0 h0) (Hook_unhook sys g)" for g
    unfolding keeps_def using Hook_unhook_left_alone [OF _ assms] by blast
  then show ?thesis
    unfolding unhookAll_def by (intro keeps_and_next)
qed

lemma list_all_hooked_names:
  "list_all Q hooked_names \<longleftrightarrow>
     Q ''connect'' \<and> Q ''gethostbyname'' \<and> Q ''recv'' \<and> Q ''recvfrom'' \<and> Q ''WSARecv''
     \<and> Q ''WSAGetOverlappedResult''"
  by (simp add: hooked_names_def)

lemma attach_hooks_left_alone:
  assumes "\<forall>a \<in> A. list_all (\<lambda>name. a \<notin> set (patch_area (GetProcAddress sys ws2 name)))
                       hooked_names"
  shows "keeps (left_alone A m0 h0) (attach_hooks sys lay ws2)"
proof -
  have K: "keeps (left_alone A m0 h0) (Hook_attach sys lay g ws2 name)"
    if "g \<noteq> InetAddr" "\<forall>a \<in> A. a \<notin> set (patch_area (GetProcAddress sys ws2 name))" for g name
    unfolding keeps_def using Hook_attach_left_alone [OF _ that] by blast
  have N: "\<forall>a \<in> A. a \<notin> set (patch_area (GetProcAddress sys ws2 ''connect''))"
    "\<forall>a \<in> A. a \<notin> set (patch_area (GetProcAddress sys ws2 ''gethostbyname''))"
    "\<forall>a \<in> A. a \<notin> set (patch_area (GetProcAddress sys ws2 ''recv''))"
    "\<forall>a \<in> A. a \<notin> set (patch_area (GetProcAddress sys ws2 ''recvfrom''))"
    "\<forall>a \<in> A. a \<notin> set (patch_area (GetProcAddress sys ws2 ''WSARecv''))"
    "\<forall>a \<in> A. a \<notin> set (patch_area (GetProcAddress sys ws2 ''WSAGetOverlappedResult''))"
    using assms by (simp_all add: list_all_hooked_names)
  show ?thesis
    unfolding attach_hooks_def
    by (intro keeps_and_also K) (simp_all add: N)
qed

lemma setFilter_state: "\<exists>r. snd (setFilter ops address s) = s\<lparr>g_rules := r\<rparr>"
  by (auto simp: setFilter_def split: prod.splits)

lemma setFilter_left_alone:
  "left_alone A m0 h0 (snd (setFilter ops address s)) = left_alone A m0 h0 s"
  by (simp add: setFilter_def left_alone_def split: prod.splits)

lemma SteamFilter_left_alone:
  assumes I: "left_alone A m0 h0 s" and z: "m_resume h0 = 0"
      and u: "\<forall>a \<in> A. untouched a (Install ops sys address)"
      and r: "SteamFilter ops sys lay address s = Some (r, s')"
  shows "left_alone A m0 h0 s'"
proof (cases "m_resume (g_connectResume s) \<noteq> 0")
  case True
  then have "s' = snd (setFilter ops address s)"
    using r by (auto simp: SteamFilter_def split: prod.splits)
  then show ?thesis using I by (simp add: setFilter_left_alone)
next
  case False
  then obtain ws2 where w: "wait_for_WS2_32 (GetModuleHandleW sys) 0 = Some ws2"
    using r by (auto simp: SteamFilter_def split: option.splits)
  define s1 where "s1 = snd (setFilter ops address s)"
  obtain ok s2 where a2: "attach_hooks sys lay ws2 s1 = (ok, s2)"
    by (cases "attach_hooks sys lay ws2 s1")
  have I1: "left_alone A m0 h0 s1"
    using I by (simp add: s1_def setFilter_left_alone)
  have "\<forall>a \<in> A. list_all (\<lambda>name. a \<notin> set (patch_area (GetProcAddress sys ws2 name)))
                    hooked_names"
    using u w by simp
  then have I2: "left_alone A m0 h0 s2"
    using attach_hooks_left_alone [of A sys ws2 m0 h0 lay] I1 a2 unfolding keeps_def by blast
  show ?thesis
  proof (cases ok)
    case True
    then have "s' = s2\<lparr>g_instance := GetModuleHandleExW sys,
                        references := references s2
                          + (if GetModuleHandleExW sys \<noteq> 0 then 1 else 0)\<rparr>"
      using r False w a2 by (auto simp: SteamFilter_def s1_def split: prod.splits)
    then show ?thesis using I2 by (simp add: left_alone_def)
  next
    case no: False
    obtain f s3 where a3: "unhookAll sys s2 = (f, s3)" by (cases "unhookAll sys s2")
    have "s' = s3"
      using r False w a2 a3 no
      by (auto simp: SteamFilter_def s1_def split: prod.splits bool.splits)
    then show ?thesis
      using unhookAll_left_alone [OF z, of A m0 sys] I2 a3 unfolding keeps_def by blast
  qed
qed

lemma FilterUnload_left_alone:
  assumes I: "left_alone A m0 h0 s" and z: "m_resume h0 = 0"
  shows "left_alone A m0 h0 (snd (FilterUnload sys s))"
proof -
  have "left_alone A m0 h0 (snd (removeHook sys s))"
  proof (cases "m_resume (g_connectResume s) = 0")
    case True
    then show ?thesis using I by (simp add: removeHook_def)
  next
    case False
    obtain f s3 where a3: "unhookAll sys s = (f, s3)" by (cases "unhookAll sys s")
    then show ?thesis
      using unhookAll_left_alone [OF z, of A m0 sys] I False unfolding keeps_def
      by (auto simp: removeHook_def)
  qed
  then show ?thesis
    using I by (auto simp: FilterUnload_def left_alone_def split: prod.splits bool.splits)
qed

lemma calls_left_alone:
  assumes "m_resume h0 = 0"
  shows "left_alone A m0 h0 s \<Longrightarrow> \<forall>a \<in> A. list_all (untouched a) es
         \<Longrightarrow> calls lay es s = Some s' \<Longrightarrow> left_alone A m0 h0 s'"
proof (induction es arbitrary: s)
  case Nil
  then show ?case by simp
next
  case (Cons e es)
  have rest: "\<forall>a \<in> A. list_all (untouched a) es"
    using Cons.prems(2) by simp
  show ?case
  proof (cases e)
    case (Install ops sys address)
    then obtain r s1 where r: "SteamFilter ops sys lay address s = Some (r, s1)"
      and c: "calls lay es s1 = Some s'"
      using Cons.prems(3) by (auto split: option.splits)
    have "\<forall>a \<in> A. untouched a (Install ops sys address)"
      using Cons.prems(2) Install by simp
    then have "left_alone A m0 h0 s1"
      using SteamFilter_left_alone [OF Cons.prems(1) assms _ r] by blast
    then show ?thesis using Cons.IH rest c by blast
  next
    case (Unload sys)
    then have c: "calls lay es (snd (FilterUnload sys s)) = Some s'"
      using Cons.prems(3) by simp
    show ?thesis
      using Cons.IH [OF FilterUnload_left_alone [OF Cons.prems(1) assms] rest c] .
  qed
qed

lemma Filter_loaded_left_alone: "left_alone A mem ApiHook_new (Filter_loaded rules mem refs)"
proof -
  have "m_resume (hook_of g (Filter_loaded rules mem refs)) = 0" for g
    by (cases g) (simp_all add: Filter_loaded_def ApiHook_new_def)
  then show ?thesis
    by (simp add: left_alone_def) (simp add: Filter_loaded_def)
qed

text \<open>
  C6 at a failing input: the first call of \<open>SteamFilter\<close> with an address
  specification the rule engine rejects, all six entry points being patchable.
  \<open>setFilter\<close> returns 0, the call drops that result and returns 1.
\<close>

theorem first_call_hides_rule_failure:
  "fst (setFilter example_rules [] (Filter_loaded None example_code 1)) = 0
   \<and> map_option fst
        (SteamFilter example_rules example_sys example_layout []
           (Filter_loaded None example_code 1))
       = Some (Returned 1)"
  by code_simp

text \<open>
  C7 at a failing input: \<open>connect\<close> begins with \<open>push imm8\<close> and the thunk cannot be
  made executable.  The first call of \<open>SteamFilter\<close> returns 1 with the resume pointer
  of \<open>g_connectResume\<close> null, so the second call does not take the re-bind path: it
  tries to attach again, fails at the patched entry point of \<open>connect\<close>, unhooks the
  other hooks and returns \<open>- 1\<close>.
\<close>

theorem second_call_after_thunk_failure:
  "(case SteamFilter example_rules thunk_refusing_sys example_layout ''*:27030=10.0.0.5''
           (Filter_loaded None (example_code(0x71AB1000 := 0x6A)) 1) of
      Some (r, s) \<Rightarrow>
        r = Returned 1 \<and> m_resume (g_connectResume s) = 0
        \<and> m_resume (g_gethostResume s) \<noteq> 0 \<and>
        (case SteamFilter example_rules thunk_refusing_sys example_layout ''*:27030=10.0.0.5'' s of
           Some (r', s') \<Rightarrow> r' = Returned (- 1) \<and> m_resume (g_gethostResume s') = 0
         | None \<Rightarrow> False)
    | None \<Rightarrow> False)"
  by code_simp

text \<open>
  C10: no sequence of calls of \<open>SteamFilter\<close> and \<open>FilterUnload\<close> on the loaded
  DLL changes the hook record of \<open>inet_addr\<close>: it stays as constructed, with a null
  resume pointer.  And no call writes outside the patch areas of the six functions that
  \<open>SteamFilter\<close> looks up: a byte at an address apart from them, as the entry point of
  \<open>inet_addr\<close> is, keeps its value.
\<close>

theorem inet_addr_never_hooked:
  assumes "calls lay es (Filter_loaded rules mem refs) = Some s"
  shows "g_inet_addr_resume s = ApiHook_new
         \<and> (\<forall>a. list_all (untouched a) es \<longrightarrow> code s a = mem a)"
proof -
  have z: "m_resume ApiHook_new = 0" by (simp add: ApiHook_new_def)
  have "left_alone {a. list_all (untouched a) es} mem ApiHook_new s"
    using calls_left_alone [OF z Filter_loaded_left_alone _ assms] by simp
  then show ?thesis by (simp add: left_alone_def)
qed

theorem inet_addr_never_hooked_witness:
  "calls example_layout example_calls (Filter_loaded None example_code 1) \<noteq> None
   \<and> g_inet_addr_resume
        (the (calls example_layout example_calls (Filter_loaded None example_code 1)))
       = ApiHook_new
   \<and> list_all (untouched 0x71AB1200) example_calls
   \<and> code (the (calls example_layout example_calls (Filter_loaded None example_code 1)))
        0x71AB1200 = 0x6A"
proof -
  have "calls example_layout example_calls (Filter_loaded None example_code 1) \<noteq> None"
    by code_simp
  then obtain s where
    s: "calls example_layout example_calls (Filter_loaded None example_code 1) = Some s"
    by blast
  have u: "list_all (untouched 0x71AB1200) example_calls"
    by code_simp
  have c: "example_code 0x71AB1200 = 0x6A"
    by code_simp
  show ?thesis
    using inet_addr_never_hooked [OF s] s u c by simp
qed

end
